theory Spec2Isabelle
  imports Main
begin

section \<open>resolveHref (packages/next/src/shared/lib/router/utils/resolve-href.ts)\<close>

text \<open>
  A shallow embedding of \<open>resolveHref\<close>. JavaScript strings are modelled as \<open>string\<close>,
  the two return shapes (a string, or an array of one or two strings) as a datatype, the
  exception raised by the platform's \<open>URL\<close> constructor as \<open>TypeError\<close>, and the
  \<open>console.error\<close> output as a list of messages returned with the result.

  The functions that \<open>resolveHref\<close> imports from other modules, and the platform's
  \<open>URL\<close> class, are not part of the file. They are parameters of the model, collected in
  the record \<open>env\<close>: a theorem stated for \<open>env\<close> holds for each implementation of them.
  The imported functions are taken with the types of their declarations, as functions
  that return a value; of the platform, only the \<open>URL\<close> constructor throws. A second part
  of the theory defines one concrete \<open>env\<close>, on which the theorems are instantiated.
\<close>

subsection \<open>String primitives\<close>

definition backslash :: char where
  "backslash = CHR 0x5C"

definition isAsciiAlpha :: "char \<Rightarrow> bool" where
  "isAsciiAlpha c =
     (let n = (of_char c :: nat) in (65 \<le> n \<and> n \<le> 90) \<or> (97 \<le> n \<and> n \<le> 122))"

text \<open>\<open>s.match(/^[a-zA-Z]{1,}:\/\//)\<close>: the matched prefix, if any.\<close>

definition urlProtoMatch :: "string \<Rightarrow> string option" where
  "urlProtoMatch s =
     (let letters = takeWhile isAsciiAlpha s; rest = dropWhile isAsciiAlpha s
      in if letters \<noteq> [] \<and> take 3 rest = ''://'' then Some (letters @ ''://'') else None)"

text \<open>\<open>s.split(c)\<close> for a one-character separator: never empty.\<close>

fun split_on :: "char \<Rightarrow> string \<Rightarrow> string list" where
  "split_on c [] = [[]]"
| "split_on c (x # xs) =
     (if x = c then [] # split_on c xs
      else (case split_on c xs of p # ps \<Rightarrow> (x # p) # ps | [] \<Rightarrow> [[x]]))"

text \<open>\<open>s.match(/(\/\/|\\)/)\<close> as a test: two adjacent slashes, or a backslash.\<close>

fun hasRepeatedSlashes :: "string \<Rightarrow> bool" where
  "hasRepeatedSlashes [] = False"
| "hasRepeatedSlashes (c # cs) =
     (c = backslash
      \<or> (c = CHR ''/'' \<and> (case cs of d # _ \<Rightarrow> d = CHR ''/'' | [] \<Rightarrow> False))
      \<or> hasRepeatedSlashes cs)"

definition startsWith :: "string \<Rightarrow> char \<Rightarrow> bool" where
  "startsWith s c = (case s of x # _ \<Rightarrow> x = c | [] \<Rightarrow> False)"

subsection \<open>Data\<close>

text \<open>The router state read by \<open>resolveHref\<close>: \<open>router.pathname\<close> and \<open>router.asPath\<close>.\<close>

record NextRouter =
  pathname :: string
  asPath :: string

text \<open>
  \<open>Url = string | UrlObject\<close>. The object form carries a pathname, a query mapping and a
  hash; the type \<open>'q\<close> of query mappings is that of the imported helpers.
\<close>

record 'q UrlObject =
  obj_pathname :: string
  obj_hash :: string
  obj_query :: 'q

datatype 'q Url = UrlString string | UrlObj "'q UrlObject"

text \<open>
  The value returned by \<open>interpolateAs\<close>: \<open>{ result, params }\<close>, where \<open>result\<close> is a
  string or \<open>null\<close>.
\<close>

record interpolated =
  result :: "string option"
  params :: "string list"

text \<open>The return value: \<open>string\<close>, \<open>[string]\<close> or \<open>[string, string]\<close>.\<close>

datatype resolved = Str string | Arr "string list"

datatype error = TypeError

text \<open>
  The imported functions and the members of the platform's \<open>URL\<close> class that
  \<open>resolveHref\<close> uses. \<open>'u\<close> is the type of \<open>URL\<close> objects. \<open>URL_new url base\<close> is
  \<open>new URL(url, base)\<close>, \<open>None\<close> when the constructor throws; a \<open>URL\<close> object given as
  base is converted to its \<open>href\<close>, as the constructor does. \<open>URL_set_pathname u p\<close> is the
  object after \<open>u.pathname = p\<close>.
\<close>

record ('u, 'q) env =
  formatWithValidation :: "'q UrlObject \<Rightarrow> string"
  normalizeRepeatedSlashes :: "string \<Rightarrow> string"
  isLocalURL :: "string \<Rightarrow> bool"
  normalizePathTrailingSlash :: "string \<Rightarrow> string"
  isDynamicRoute :: "string \<Rightarrow> bool"
  searchParamsToUrlQuery :: "(string \<times> string) list \<Rightarrow> 'q"
  interpolateAs :: "string \<Rightarrow> string \<Rightarrow> 'q \<Rightarrow> interpolated"
  omit :: "'q \<Rightarrow> string list \<Rightarrow> 'q"
  URL_new :: "string \<Rightarrow> string \<Rightarrow> 'u option"
  URL_href :: "'u \<Rightarrow> string"
  URL_origin :: "'u \<Rightarrow> string"
  URL_pathname :: "'u \<Rightarrow> string"
  URL_set_pathname :: "'u \<Rightarrow> string \<Rightarrow> 'u"
  URL_searchParams :: "'u \<Rightarrow> (string \<times> string) list"
  URL_hash :: "'u \<Rightarrow> string"

subsection \<open>JavaScript truthiness\<close>

text \<open>An object (here the \<open>URLSearchParams\<close> of a \<open>URL\<close>) is always truthy.\<close>

definition truthy_object :: "'a \<Rightarrow> bool" where
  "truthy_object x = True"

subsection \<open>The function, in the order of the source\<close>

text \<open>Line 33: \<open>typeof href === 'string' ? href : formatWithValidation(href)\<close>.\<close>

definition hrefToString :: "('u, 'q) env \<Rightarrow> 'q Url \<Rightarrow> string" where
  "hrefToString env href =
     (case href of UrlString s \<Rightarrow> s | UrlObj obj \<Rightarrow> formatWithValidation env obj)"

text \<open>Lines 37 to 42: the scheme prefix, the string without it, and its parts at \<open>?\<close>.\<close>

definition urlAsStringNoProto :: "string \<Rightarrow> string" where
  "urlAsStringNoProto urlAsString =
     (case urlProtoMatch urlAsString of
        Some proto \<Rightarrow> drop (length proto) urlAsString
      | None \<Rightarrow> urlAsString)"

definition urlParts :: "string \<Rightarrow> string list" where
  "urlParts urlAsString = split_on CHR ''?'' (urlAsStringNoProto urlAsString)"

text \<open>Line 44: \<open>(urlParts[0] || '').match(/(\/\/|\\)/)\<close>.\<close>

definition needsRepair :: "string \<Rightarrow> bool" where
  "needsRepair urlAsString =
     hasRepeatedSlashes (case urlParts urlAsString of p # _ \<Rightarrow> p | [] \<Rightarrow> [])"

text \<open>Lines 45 to 47: the message given to \<open>console.error\<close>.\<close>

definition invalidHrefMessage :: "string \<Rightarrow> string" where
  "invalidHrefMessage urlAsString =
     ''Invalid href passed to next/router: '' @ urlAsString
     @ '', repeated forward-slashes (//) or backslashes '' @ [backslash]
     @ '' are not valid in the href''"

text \<open>
  Lines 44 to 50: the console output of the block and the value of \<open>urlAsString\<close>
  after it.
\<close>

definition repairHref :: "('u, 'q) env \<Rightarrow> string \<Rightarrow> string list \<times> string" where
  "repairHref env urlAsString =
     (if needsRepair urlAsString
      then ([invalidHrefMessage urlAsString],
            (case urlProtoMatch urlAsString of Some proto \<Rightarrow> proto | None \<Rightarrow> [])
            @ normalizeRepeatedSlashes env (urlAsStringNoProto urlAsString))
      else ([], urlAsString))"

text \<open>The value of \<open>urlAsString\<close> from line 51 on, for an argument \<open>href\<close>.\<close>

definition urlAsStringOf :: "('u, 'q) env \<Rightarrow> 'q Url \<Rightarrow> string" where
  "urlAsStringOf env href = snd (repairHref env (hrefToString env href))"

text \<open>Lines 54 and 104: \<open>resolveAs ? [urlAsString] : urlAsString\<close>.\<close>

definition unresolved :: "string \<Rightarrow> bool \<Rightarrow> resolved" where
  "unresolved urlAsString resolveAs = (if resolveAs then Arr [urlAsString] else Str urlAsString)"

text \<open>
  Lines 57 to 65: the base. The constructor call in the \<open>catch\<close> block is outside every
  \<open>try\<close>: were it to throw, the exception would leave \<open>resolveHref\<close>.
\<close>

definition resolutionBase :: "('u, 'q) env \<Rightarrow> NextRouter \<Rightarrow> string \<Rightarrow> error + 'u" where
  "resolutionBase env router urlAsString =
     (case URL_new env (if startsWith urlAsString CHR ''#'' then asPath router else pathname router)
                   ''http://n'' of
        Some base \<Rightarrow> Inr base
      | None \<Rightarrow>
          (case URL_new env ''/'' ''http://n'' of
             Some base \<Rightarrow> Inr base
           | None \<Rightarrow> Inl TypeError))"

text \<open>Lines 68 and 69: \<open>finalUrl\<close>, when the constructor does not throw.\<close>

definition finalUrlFor :: "('u, 'q) env \<Rightarrow> string \<Rightarrow> 'u \<Rightarrow> 'u option" where
  "finalUrlFor env urlAsString base =
     (case URL_new env urlAsString (URL_href env base) of
        None \<Rightarrow> None
      | Some parsed \<Rightarrow>
          Some (URL_set_pathname env parsed
                  (normalizePathTrailingSlash env (URL_pathname env parsed))))"

text \<open>Lines 72 to 76: the condition under which \<open>interpolateAs\<close> is called.\<close>

definition interpolationAttempted :: "('u, 'q) env \<Rightarrow> 'u \<Rightarrow> bool \<Rightarrow> bool" where
  "interpolationAttempted env finalUrl resolveAs =
     (isDynamicRoute env (URL_pathname env finalUrl)
      \<and> truthy_object (URL_searchParams env finalUrl)
      \<and> resolveAs)"

text \<open>
  Lines 70 to 92: the value of \<open>interpolatedAs\<close> after the block. \<open>if (result)\<close> holds
  for a string that is not empty.
\<close>

definition interpolatedAs :: "('u, 'q) env \<Rightarrow> 'u \<Rightarrow> bool \<Rightarrow> string" where
  "interpolatedAs env finalUrl resolveAs =
     (if interpolationAttempted env finalUrl resolveAs
      then
        (let query = searchParamsToUrlQuery env (URL_searchParams env finalUrl);
             r = interpolateAs env (URL_pathname env finalUrl) (URL_pathname env finalUrl) query
         in case result r of
              Some path \<Rightarrow>
                if path \<noteq> []
                then formatWithValidation env
                       \<lparr> obj_pathname = path,
                         obj_hash = URL_hash env finalUrl,
                         obj_query = omit env query (params r) \<rparr>
                else []
            | None \<Rightarrow> [])
      else [])"

text \<open>Lines 95 to 98: \<open>resolvedHref\<close>.\<close>

definition resolvedHref :: "('u, 'q) env \<Rightarrow> 'u \<Rightarrow> 'u \<Rightarrow> string" where
  "resolvedHref env finalUrl base =
     (if URL_origin env finalUrl = URL_origin env base
      then drop (length (URL_origin env finalUrl)) (URL_href env finalUrl)
      else URL_href env finalUrl)"

text \<open>Lines 67 to 105: the second \<open>try\<close> block and its \<open>catch\<close>.\<close>

definition resolveAgainst :: "('u, 'q) env \<Rightarrow> string \<Rightarrow> 'u \<Rightarrow> bool \<Rightarrow> resolved" where
  "resolveAgainst env urlAsString base resolveAs =
     (case finalUrlFor env urlAsString base of
        None \<Rightarrow> unresolved urlAsString resolveAs
      | Some finalUrl \<Rightarrow>
          (let as = interpolatedAs env finalUrl resolveAs;
               href = resolvedHref env finalUrl base
           in if resolveAs then Arr [href, if as \<noteq> [] then as else href] else Str href))"

text \<open>
  The whole function: the console output, and either the exception that leaves the
  function or the value returned.
\<close>

definition resolveHref ::
  "('u, 'q) env \<Rightarrow> NextRouter \<Rightarrow> 'q Url \<Rightarrow> bool \<Rightarrow> string list \<times> (error + resolved)" where
  "resolveHref env router href resolveAs =
     (let console = fst (repairHref env (hrefToString env href));
          s = urlAsStringOf env href
      in if \<not> isLocalURL env s
         then (console, Inr (unresolved s resolveAs))
         else (case resolutionBase env router s of
                 Inl e \<Rightarrow> (console, Inl e)
               | Inr base \<Rightarrow> (console, Inr (resolveAgainst env s base resolveAs))))"

section \<open>A concrete environment\<close>

text \<open>
  One implementation of every parameter, on which the theorems are instantiated: the
  imported helpers as the specification describes them, and a fragment of the URL
  Standard's parser for the platform's \<open>URL\<close> class.
\<close>

subsection \<open>The imported helpers\<close>

text \<open>
  Modelled from the spec: \<open>normalizeRepeatedSlashes\<close> (imported from \<open>../../utils\<close>) is
  not among the sources. The specification: "rewrite the path-only portion with repeated
  slashes collapsed"; "repairs repeated slash/backslash sequences". In the portion before
  the first \<open>?\<close> every run of slashes and backslashes becomes one slash; the rest is kept.
  The flag of \<open>collapseSlashes\<close> says that the previous character was a separator.
\<close>

fun collapseSlashes :: "bool \<Rightarrow> string \<Rightarrow> string" where
  "collapseSlashes prev [] = []"
| "collapseSlashes prev (c # cs) =
     (if c = CHR ''/'' \<or> c = backslash
      then (if prev then collapseSlashes True cs else CHR ''/'' # collapseSlashes True cs)
      else c # collapseSlashes False cs)"

definition spec_normalizeRepeatedSlashes :: "string \<Rightarrow> string" where
  "spec_normalizeRepeatedSlashes url =
     collapseSlashes False (takeWhile (\<lambda>c. c \<noteq> CHR ''?'') url)
     @ dropWhile (\<lambda>c. c \<noteq> CHR ''?'') url"

text \<open>
  Modelled from the spec: \<open>isLocalURL\<close> (imported from \<open>./is-local-url\<close>) is not among the
  sources. The specification: "true iff the string refers to a resource the router itself
  can navigate to (same-origin, not a protocol the router doesn't own)"; an "absolute
  external URL" is not local. Here a string that begins with a scheme
  (a letter, then letters, digits, \<open>+\<close>, \<open>-\<close> or \<open>.\<close>, then a colon) is an absolute URL of
  another origin; every other string is local.
\<close>

definition isSchemeChar :: "char \<Rightarrow> bool" where
  "isSchemeChar c =
     (let n = (of_char c :: nat)
      in isAsciiAlpha c \<or> (48 \<le> n \<and> n \<le> 57) \<or> c = CHR ''+'' \<or> c = CHR ''-'' \<or> c = CHR ''.'')"

definition hasScheme :: "string \<Rightarrow> bool" where
  "hasScheme s =
     (case s of
        [] \<Rightarrow> False
      | c # cs \<Rightarrow> isAsciiAlpha c \<and> startsWith (dropWhile isSchemeChar cs) CHR '':'')"

definition spec_isLocalURL :: "string \<Rightarrow> bool" where
  "spec_isLocalURL url = (\<not> hasScheme url)"

text \<open>
  Modelled from the spec: \<open>normalizePathTrailingSlash\<close> (imported from
  \<open>client/normalize-trailing-slash\<close>) is not among the sources. The specification:
  "site-wide trailing-slash convention", "either always-present or always-absent,
  configurable". Here the convention is always-absent: a trailing slash is removed from
  every path but the root.
\<close>

definition spec_normalizePathTrailingSlash :: "string \<Rightarrow> string" where
  "spec_normalizePathTrailingSlash path =
     (if path \<noteq> [] \<and> last path = CHR ''/'' \<and> butlast path \<noteq> [] then butlast path else path)"

text \<open>
  Modelled from the spec: \<open>isDynamicRoute\<close> (imported from \<open>./is-dynamic\<close>) is not among
  the sources. The specification: "true iff the path contains parameter placeholders",
  that is "bracketed segments" such as \<open>[id]\<close>. A placeholder is a segment after a slash
  that is a name in square brackets.
\<close>

definition placeholderName :: "string \<Rightarrow> string option" where
  "placeholderName segment =
     (case segment of
        [] \<Rightarrow> None
      | c # cs \<Rightarrow>
          if c = CHR ''['' \<and> cs \<noteq> [] \<and> last cs = CHR '']'' \<and> butlast cs \<noteq> []
          then Some (butlast cs) else None)"

definition spec_isDynamicRoute :: "string \<Rightarrow> bool" where
  "spec_isDynamicRoute path =
     list_ex (\<lambda>segment. placeholderName segment \<noteq> None) (tl (split_on CHR ''/'' path))"

text \<open>
  Modelled from the spec: \<open>searchParamsToUrlQuery\<close> (imported from \<open>./querystring\<close>) is not
  among the sources. The specification: "convert query parameters to a key/value
  mapping". The mapping is an association list in the order of the parameters; a name
  given twice keeps both values.
\<close>

type_synonym urlQuery = "(string \<times> string) list"

definition spec_searchParamsToUrlQuery :: "(string \<times> string) list \<Rightarrow> urlQuery" where
  "spec_searchParamsToUrlQuery searchParams = searchParams"

text \<open>
  Modelled from the spec: \<open>interpolateAs\<close> (imported from \<open>./interpolate-as\<close>) is not among
  the sources. The specification: "interpolate(pattern, concretePath, queryMap) ->
  {result: path|null, consumedParams: set}: substitutes placeholders with matching query
  values; reports which query keys were consumed". Each placeholder segment of the
  pattern is replaced by the first value that the mapping has for its name; the names of
  the placeholders are the consumed keys; there is no result when a name has no value.
  \<open>resolveHref\<close> passes the pattern as the concrete path too, which is not read here.
\<close>

definition substituteSegment :: "urlQuery \<Rightarrow> string \<Rightarrow> string option" where
  "substituteSegment query segment =
     (case placeholderName segment of
        None \<Rightarrow> Some segment
      | Some name \<Rightarrow> map_of query name)"

fun joinWith :: "char \<Rightarrow> string list \<Rightarrow> string" where
  "joinWith c [] = []"
| "joinWith c [x] = x"
| "joinWith c (x # y # ys) = x @ c # joinWith c (y # ys)"

definition spec_interpolateAs :: "string \<Rightarrow> string \<Rightarrow> urlQuery \<Rightarrow> interpolated" where
  "spec_interpolateAs route asPathname query =
     (let segments = split_on CHR ''/'' route
      in \<lparr> result = map_option (joinWith CHR ''/'') (those (map (substituteSegment query) segments)),
           params = List.map_filter placeholderName segments \<rparr>)"

text \<open>
  Modelled from the spec: \<open>omit\<close> (imported from \<open>./omit\<close>) is not among the sources. The
  specification: "The parameters consumed in this substitution are then excluded from the
  serialized as string's query component"; "all other query parameters remain".
\<close>

definition spec_omit :: "urlQuery \<Rightarrow> string list \<Rightarrow> urlQuery" where
  "spec_omit query keys = filter (\<lambda>(k, v). k \<notin> set keys) query"

text \<open>
  Modelled from the spec: \<open>formatWithValidation\<close> (imported from \<open>./format-url\<close>) is not
  among the sources. The specification: "deterministic serialization of a structured
  navigation target into a URL string". The pathname, then the query as \<open>?k=v&k=v\<close> when
  there is one, then the hash with its \<open>#\<close>; nothing is escaped.
\<close>

definition formatQuery :: "urlQuery \<Rightarrow> string" where
  "formatQuery query =
     (if query = [] then []
      else CHR ''?'' # joinWith CHR ''&'' (map (\<lambda>(k, v). k @ CHR ''='' # v) query))"

definition formatHash :: "string \<Rightarrow> string" where
  "formatHash h = (if h = [] \<or> startsWith h CHR ''#'' then h else CHR ''#'' # h)"

definition spec_formatWithValidation :: "urlQuery UrlObject \<Rightarrow> string" where
  "spec_formatWithValidation url =
     obj_pathname url @ formatQuery (obj_query url) @ formatHash (obj_hash url)"

subsection \<open>The platform's URL class\<close>

text \<open>
  A fragment of the URL Standard (url.spec.whatwg.org): URLs of scheme \<open>http\<close> with a
  host of ASCII letters, no credentials and no port, whose path, query and fragment hold
  only characters that the parser copies unchanged. On these the definitions below
  follow the standard's basic URL parser, serializer and API step by step. A string
  outside the fragment is rejected; the theorems that use this environment evaluate it
  inside the fragment only.
\<close>

record httpURL =
  url_host :: string
  url_path :: "string list"
  url_query :: "string option"
  url_fragment :: "string option"

definition isC0ControlOrSpace :: "char \<Rightarrow> bool" where
  "isC0ControlOrSpace c = ((of_char c :: nat) \<le> 32)"

definition isTabOrNewline :: "char \<Rightarrow> bool" where
  "isTabOrNewline c = (c = CHR 0x09 \<or> c = CHR 0x0A \<or> c = CHR 0x0D)"

text \<open>
  The parser first removes leading and trailing C0 controls and spaces, then every tab
  and newline.
\<close>

definition preprocess :: "string \<Rightarrow> string" where
  "preprocess input =
     filter (\<lambda>c. \<not> isTabOrNewline c)
       (rev (dropWhile isC0ControlOrSpace (rev (dropWhile isC0ControlOrSpace input))))"

definition toAsciiLower :: "char \<Rightarrow> char" where
  "toAsciiLower c =
     (let n = (of_char c :: nat) in if 65 \<le> n \<and> n \<le> 90 then char_of (n + 32) else c)"

text \<open>Scheme start state and scheme state: the lower-cased scheme and what follows the colon.\<close>

definition schemeOf :: "string \<Rightarrow> (string \<times> string) option" where
  "schemeOf s =
     (if hasScheme s
      then Some (map toAsciiLower (takeWhile isSchemeChar s), tl (dropWhile isSchemeChar s))
      else None)"

definition isSlash :: "char \<Rightarrow> bool" where
  "isSlash c = (c = CHR ''/'' \<or> c = backslash)"

text \<open>Characters outside the path, query and fragment percent-encode sets (and no \<open>%\<close>).\<close>

definition isPrintable :: "char \<Rightarrow> bool" where
  "isPrintable c = (let n = (of_char c :: nat) in 33 \<le> n \<and> n \<le> 126)"

definition pathSafe :: "char \<Rightarrow> bool" where
  "pathSafe c =
     (isPrintable c \<and> c \<notin> set ''\"#%<>?^`{}'' \<and> \<not> isSlash c)"

definition querySafe :: "char \<Rightarrow> bool" where
  "querySafe c = (isPrintable c \<and> c \<notin> set ''\"#%<>'' \<and> c \<noteq> CHR 0x27)"

definition fragmentSafe :: "char \<Rightarrow> bool" where
  "fragmentSafe c = (isPrintable c \<and> c \<notin> set ''\"<>`'')"

text \<open>The segments of a path string, separated by slashes (for \<open>http\<close>, backslashes too).\<close>

fun splitSlash :: "string \<Rightarrow> string list" where
  "splitSlash [] = [[]]"
| "splitSlash (x # xs) =
     (if isSlash x then [] # splitSlash xs
      else (case splitSlash xs of p # ps \<Rightarrow> (x # p) # ps | [] \<Rightarrow> [[x]]))"

text \<open>
  Path state, one segment at a time: \<open>..\<close> removes the last segment of the path built so
  far, \<open>.\<close> is skipped, and either of them in last position leaves an empty segment.
\<close>

fun pathState :: "string list \<Rightarrow> string list \<Rightarrow> string list" where
  "pathState path [] = path"
| "pathState path (segment # rest) =
     (if segment = ''..''
      then (if rest = [] then butlast path @ [[]] else pathState (butlast path) rest)
      else if segment = ''.''
      then (if rest = [] then path @ [[]] else pathState path rest)
      else pathState (path @ [segment]) rest)"

text \<open>Path start state: one leading slash is consumed.\<close>

definition parsePath :: "string list \<Rightarrow> string \<Rightarrow> string list option" where
  "parsePath path s =
     (let segments = splitSlash (case s of c # cs \<Rightarrow> if isSlash c then cs else s | [] \<Rightarrow> [])
      in if list_all (list_all pathSafe) segments then Some (pathState path segments) else None)"

text \<open>Query state and fragment state, on what follows the path.\<close>

definition parseQuery :: "string \<Rightarrow> string option option" where
  "parseQuery s =
     (case s of
        [] \<Rightarrow> Some None
      | c # cs \<Rightarrow>
          if c = CHR ''?''
          then (let q = takeWhile (\<lambda>d. d \<noteq> CHR ''#'') cs
                in if list_all querySafe q then Some (Some q) else None)
          else Some None)"

definition parseFragment :: "string \<Rightarrow> string option option" where
  "parseFragment s =
     (case dropWhile (\<lambda>d. d \<noteq> CHR ''#'') s of
        [] \<Rightarrow> Some None
      | c # cs \<Rightarrow> if list_all fragmentSafe cs then Some (Some cs) else None)"

definition isPathEnd :: "char \<Rightarrow> bool" where
  "isPathEnd c = (c = CHR ''?'' \<or> c = CHR ''#'')"

text \<open>The path, query and fragment of \<open>s\<close>, the path continuing \<open>path\<close>, under host \<open>h\<close>.\<close>

definition parseFromPath :: "string \<Rightarrow> string list \<Rightarrow> string \<Rightarrow> httpURL option" where
  "parseFromPath h path s =
     (case (parsePath path (takeWhile (\<lambda>c. \<not> isPathEnd c) s),
            parseQuery (dropWhile (\<lambda>c. \<not> isPathEnd c) s),
            parseFragment (dropWhile (\<lambda>c. \<not> isPathEnd c) s)) of
        (Some p, Some q, Some f) \<Rightarrow>
          Some \<lparr> url_host = h, url_path = p, url_query = q, url_fragment = f \<rparr>
      | _ \<Rightarrow> None)"

text \<open>
  Authority state and host state, after the slashes: an empty host is a failure of the
  standard; a host with other characters than letters is outside the fragment.
\<close>

definition parseAuthority :: "string \<Rightarrow> httpURL option" where
  "parseAuthority s =
     (let h = takeWhile (\<lambda>c. \<not> isSlash c \<and> \<not> isPathEnd c) s;
          rest = dropWhile (\<lambda>c. \<not> isSlash c \<and> \<not> isPathEnd c) s
      in if h = [] then None
         else if list_all isAsciiAlpha h then parseFromPath (map toAsciiLower h) [] rest
         else None)"

text \<open>Relative state and relative slash state, for an input without a scheme.\<close>

definition parseRelative :: "string \<Rightarrow> httpURL \<Rightarrow> httpURL option" where
  "parseRelative s base =
     (case s of
        [] \<Rightarrow> Some (base\<lparr> url_fragment := None \<rparr>)
      | c # cs \<Rightarrow>
          if isSlash c
          then (if cs \<noteq> [] \<and> isSlash (hd cs)
                then parseAuthority (dropWhile isSlash cs)
                else parseFromPath (url_host base) [] s)
          else if c = CHR ''?''
          then (case (parseQuery s, parseFragment s) of
                  (Some q, Some f) \<Rightarrow> Some (base\<lparr> url_query := q, url_fragment := f \<rparr>)
                | _ \<Rightarrow> None)
          else if c = CHR ''#''
          then (case parseFragment s of
                  Some f \<Rightarrow> Some (base\<lparr> url_fragment := f \<rparr>)
                | None \<Rightarrow> None)
          else parseFromPath (url_host base) (butlast (url_path base)) s)"

text \<open>The basic URL parser on an input and an optional base.\<close>

definition parseURL :: "string \<Rightarrow> httpURL option \<Rightarrow> httpURL option" where
  "parseURL input base =
     (let s = preprocess input
      in case schemeOf s of
           Some (scheme, rest) \<Rightarrow>
             if scheme = ''http'' \<and> take 2 rest = ''//''
             then parseAuthority (dropWhile isSlash rest) else None
         | None \<Rightarrow>
             (case base of None \<Rightarrow> None | Some b \<Rightarrow> parseRelative s b))"

text \<open>\<open>new URL(url, base)\<close>: the base is parsed first, without a base of its own.\<close>

definition http_URL_new :: "string \<Rightarrow> string \<Rightarrow> httpURL option" where
  "http_URL_new url base =
     (case parseURL base None of
        None \<Rightarrow> None
      | Some b \<Rightarrow> parseURL url (Some b))"

text \<open>The getters: the URL serializer and the API's \<open>origin\<close>, \<open>pathname\<close> and \<open>hash\<close>.\<close>

definition http_URL_pathname :: "httpURL \<Rightarrow> string" where
  "http_URL_pathname u = concat (map (\<lambda>segment. CHR ''/'' # segment) (url_path u))"

definition http_URL_origin :: "httpURL \<Rightarrow> string" where
  "http_URL_origin u = ''http://'' @ url_host u"

definition http_URL_href :: "httpURL \<Rightarrow> string" where
  "http_URL_href u =
     ''http://'' @ url_host u @ http_URL_pathname u
     @ (case url_query u of None \<Rightarrow> [] | Some q \<Rightarrow> CHR ''?'' # q)
     @ (case url_fragment u of None \<Rightarrow> [] | Some f \<Rightarrow> CHR ''#'' # f)"

definition http_URL_hash :: "httpURL \<Rightarrow> string" where
  "http_URL_hash u =
     (case url_fragment u of None \<Rightarrow> [] | Some f \<Rightarrow> if f = [] then [] else CHR ''#'' # f)"

text \<open>
  \<open>searchParams\<close>: the query split at \<open>&\<close>, empty pieces dropped, each piece split at its
  first \<open>=\<close>, and \<open>+\<close> read as a space.
\<close>

definition plusToSpace :: "string \<Rightarrow> string" where
  "plusToSpace s = map (\<lambda>c. if c = CHR ''+'' then CHR '' '' else c) s"

definition parseParam :: "string \<Rightarrow> string \<times> string" where
  "parseParam piece =
     (plusToSpace (takeWhile (\<lambda>c. c \<noteq> CHR ''='') piece),
      plusToSpace (drop 1 (dropWhile (\<lambda>c. c \<noteq> CHR ''='') piece)))"

definition http_URL_searchParams :: "httpURL \<Rightarrow> (string \<times> string) list" where
  "http_URL_searchParams u =
     (case url_query u of
        None \<Rightarrow> []
      | Some q \<Rightarrow> map parseParam (filter (\<lambda>piece. piece \<noteq> []) (split_on CHR ''&'' q)))"

text \<open>
  The \<open>pathname\<close> setter: the path is emptied and the value parsed from the path start
  state, where tabs and newlines are removed and \<open>?\<close> and \<open>#\<close> do not end the path. A
  value with characters that the parser would escape is outside the fragment and leaves
  the URL as it is.
\<close>

definition http_URL_set_pathname :: "httpURL \<Rightarrow> string \<Rightarrow> httpURL" where
  "http_URL_set_pathname u v =
     (case parsePath [] (filter (\<lambda>c. \<not> isTabOrNewline c) v) of
        Some p \<Rightarrow> u\<lparr> url_path := p \<rparr>
      | None \<Rightarrow> u)"

subsection \<open>The environment\<close>

definition http_env :: "(httpURL, urlQuery) env" where
  "http_env =
     \<lparr> formatWithValidation = spec_formatWithValidation,
       normalizeRepeatedSlashes = spec_normalizeRepeatedSlashes,
       isLocalURL = spec_isLocalURL,
       normalizePathTrailingSlash = spec_normalizePathTrailingSlash,
       isDynamicRoute = spec_isDynamicRoute,
       searchParamsToUrlQuery = spec_searchParamsToUrlQuery,
       interpolateAs = spec_interpolateAs,
       omit = spec_omit,
       URL_new = http_URL_new,
       URL_href = http_URL_href,
       URL_origin = http_URL_origin,
       URL_pathname = http_URL_pathname,
       URL_set_pathname = http_URL_set_pathname,
       URL_searchParams = http_URL_searchParams,
       URL_hash = http_URL_hash \<rparr>"

subsection \<open>Optional catch-all segments\<close>

text \<open>
  Modelled from the spec: \<open>interpolateAs\<close> (imported from \<open>./interpolate-as\<close>) is not among
  the sources. The specification gives its contract ("substitutes placeholders with
  matching query values; reports which query keys were consumed") and leaves the rest of
  it open. This second implementation treats a placeholder \<open>[name]\<close> as
  \<open>spec_interpolateAs\<close> does, and knows the optional catch-all segment \<open>[[...name]]\<close> of
  the framework's routes as well: with a value for \<open>name\<close> the segment becomes that
  value, without one the segment is left out, and a path with nothing left is the root
  \<open>/\<close>.
\<close>

definition optionalName :: "string \<Rightarrow> string option" where
  "optionalName segment =
     (if take 5 segment = ''[[...'' \<and> 7 < length segment
         \<and> drop (length segment - 2) segment = '']]''
      then Some (take (length segment - 7) (drop 5 segment)) else None)"

definition optional_interpolateAs :: "string \<Rightarrow> string \<Rightarrow> urlQuery \<Rightarrow> interpolated" where
  "optional_interpolateAs route asPathname query =
     (let segments = split_on CHR ''/'' route;
          filled = filter (\<lambda>segment. case optionalName segment of
                                       Some name \<Rightarrow> map_of query name \<noteq> None
                                     | None \<Rightarrow> True) segments;
          path = map_option (joinWith CHR ''/'')
                   (those (map (\<lambda>segment. case optionalName segment of
                                             Some name \<Rightarrow> map_of query name
                                           | None \<Rightarrow> substituteSegment query segment) filled))
      in \<lparr> result = map_option (\<lambda>p. if p = [] then ''/'' else p) path,
           params = List.map_filter (\<lambda>segment. case optionalName segment of
                                                 Some name \<Rightarrow> Some name
                                               | None \<Rightarrow> placeholderName segment) segments \<rparr>)"

text \<open>The environment \<open>http_env\<close> with this implementation of \<open>interpolateAs\<close>.\<close>

definition catchall_env :: "(httpURL, urlQuery) env" where
  "catchall_env = http_env\<lparr> interpolateAs := optional_interpolateAs \<rparr>"

section \<open>Properties\<close>

subsection \<open>Auxiliary facts\<close>



lemma urlAsStringOf_unrepaired:
  "\<not> needsRepair (hrefToString env href) \<Longrightarrow> urlAsStringOf env href = hrefToString env href"
  by (simp add: urlAsStringOf_def repairHref_def)

lemma resolutionBase_total:
  "URL_new env ''/'' ''http://n'' \<noteq> None \<Longrightarrow> \<exists>base. resolutionBase env router s = Inr base"
  by (auto simp: resolutionBase_def split: option.splits)

lemma resolveHref_total:
  "URL_new env ''/'' ''http://n'' \<noteq> None \<Longrightarrow>
   \<exists>r. snd (resolveHref env router href resolveAs) = Inr r"
  using resolutionBase_total [of env router "urlAsStringOf env href"]
  by (auto simp: resolveHref_def Let_def split: sum.splits)

lemma not_local_result:
  "\<not> isLocalURL env (urlAsStringOf env href) \<Longrightarrow>
   resolveHref env router href resolveAs
     = (fst (repairHref env (hrefToString env href)),
        Inr (unresolved (urlAsStringOf env href) resolveAs))"
  by (simp add: resolveHref_def Let_def)

lemma resolveHref_local:
  "isLocalURL env (urlAsStringOf env href) \<Longrightarrow>
   resolutionBase env router (urlAsStringOf env href) = Inr base \<Longrightarrow>
   snd (resolveHref env router href resolveAs)
     = Inr (resolveAgainst env (urlAsStringOf env href) base resolveAs)"
  by (simp add: resolveHref_def Let_def)


lemma interpolationAttempted_eq:
  "interpolationAttempted env finalUrl resolveAs
     = (resolveAs \<and> isDynamicRoute env (URL_pathname env finalUrl))"
  by (auto simp: interpolationAttempted_def truthy_object_def)



lemma interpolatedAs_match:
  "isDynamicRoute env (URL_pathname env finalUrl) \<Longrightarrow>
   result (interpolateAs env (URL_pathname env finalUrl) (URL_pathname env finalUrl)
             (searchParamsToUrlQuery env (URL_searchParams env finalUrl))) = Some path \<Longrightarrow>
   path \<noteq> [] \<Longrightarrow>
   interpolatedAs env finalUrl True
     = formatWithValidation env
         \<lparr> obj_pathname = path,
           obj_hash = URL_hash env finalUrl,
           obj_query = omit env (searchParamsToUrlQuery env (URL_searchParams env finalUrl))
                         (params (interpolateAs env (URL_pathname env finalUrl)
                                    (URL_pathname env finalUrl)
                                    (searchParamsToUrlQuery env (URL_searchParams env finalUrl)))) \<rparr>"
  by (simp add: interpolatedAs_def interpolationAttempted_eq Let_def)

lemma resolveAgainst_final:
  "finalUrlFor env s base = Some finalUrl \<Longrightarrow>
   resolveAgainst env s base resolveAs
     = (if resolveAs
        then Arr [resolvedHref env finalUrl base,
                  if interpolatedAs env finalUrl True \<noteq> [] then interpolatedAs env finalUrl True
                  else resolvedHref env finalUrl base]
        else Str (resolvedHref env finalUrl base))"
  by (simp add: resolveAgainst_def Let_def)

lemma resolveAgainst_failed:
  "finalUrlFor env s base = None \<Longrightarrow> resolveAgainst env s base resolveAs = unresolved s resolveAs"
  by (simp add: resolveAgainst_def)

lemma startsWith_collapseSlashes:
  "startsWith (collapseSlashes False s @ t) CHR ''#'' = startsWith (s @ t) CHR ''#''"
  by (cases s) (auto simp: startsWith_def backslash_def split: list.splits)

lemma startsWith_spec_normalizeRepeatedSlashes:
  "startsWith (spec_normalizeRepeatedSlashes s) CHR ''#'' = startsWith s CHR ''#''"
  using startsWith_collapseSlashes
    [of "takeWhile (\<lambda>c. c \<noteq> CHR ''?'') s" "dropWhile (\<lambda>c. c \<noteq> CHR ''?'') s"]
  by (simp add: spec_normalizeRepeatedSlashes_def)

lemma urlProtoMatch_letter:
  "urlProtoMatch s = Some proto \<Longrightarrow> \<not> startsWith s CHR ''#'' \<and> \<not> startsWith (proto @ t) CHR ''#''"
  by (cases s)
     (auto simp: urlProtoMatch_def Let_def startsWith_def isAsciiAlpha_def split: if_splits)

lemma startsWith_repaired:
  assumes "normalizeRepeatedSlashes env = spec_normalizeRepeatedSlashes"
  shows "startsWith (urlAsStringOf env (UrlString target)) CHR ''#'' = startsWith target CHR ''#''"
proof (cases "needsRepair target")
  case False
  then show ?thesis
    using urlAsStringOf_unrepaired [of env "UrlString target"] by (simp add: hrefToString_def)
next
  case True
  show ?thesis
  proof (cases "urlProtoMatch target")
    case None
    with True assms show ?thesis
      by (simp add: urlAsStringOf_def repairHref_def hrefToString_def urlAsStringNoProto_def
                    startsWith_spec_normalizeRepeatedSlashes)
  next
    case (Some proto)
    with True urlProtoMatch_letter [OF Some] show ?thesis
      by (simp add: urlAsStringOf_def repairHref_def hrefToString_def)
  qed
qed

subsection \<open>The single result and the pair\<close>

text \<open>
  C8. For every router state and every target (so for every local relative target whose
  resolved path has no dynamic segment), \<open>resolveHref(state, target, false)\<close> is the first
  element of \<open>resolveHref(state, target, true)\<close>: the two calls print the same, and either
  the second returns an array whose first element is the string that the first returns,
  or both throw.
\<close>

theorem resolveHref_single_is_first_of_pair:
  "fst (resolveHref env router href False) = fst (resolveHref env router href True)
   \<and> ((\<exists>h rest. snd (resolveHref env router href True) = Inr (Arr (h # rest))
                 \<and> snd (resolveHref env router href False) = Inr (Str h))
      \<or> (snd (resolveHref env router href True) = Inl TypeError
          \<and> snd (resolveHref env router href False) = Inl TypeError))"
proof -
  have "(\<exists>h rest. resolveAgainst env s base True = Arr (h # rest)
                 \<and> resolveAgainst env s base False = Str h)" for s base
    by (cases "finalUrlFor env s base")
       (simp_all add: resolveAgainst_final resolveAgainst_failed unresolved_def)
  then show ?thesis
    by (cases "resolutionBase env router (urlAsStringOf env href)")
       (auto simp: resolveHref_def Let_def unresolved_def intro: error.exhaust)
qed

subsection \<open>Targets that are not local\<close>

text \<open>
  C4. When the string, as it stands after the repair of repeated separators, is not
  local, \<open>resolveHref\<close> returns it unchanged: as the bare string when \<open>resolveAs\<close> is
  false, as a one-element array when it is true. No \<open>URL\<close> is constructed: the outcome
  is the same whatever the constructor does.
\<close>

theorem resolveHref_not_local:
  assumes "\<not> isLocalURL env (urlAsStringOf env href)"
  shows "snd (resolveHref env router href resolveAs)
           = Inr (if resolveAs then Arr [urlAsStringOf env href] else Str (urlAsStringOf env href))
         \<and> resolveHref (env\<lparr> URL_new := new \<rparr>) router href resolveAs
             = resolveHref env router href resolveAs"
proof -
  let ?env = "env\<lparr> URL_new := new \<rparr>"
  have h: "hrefToString ?env href = hrefToString env href"
    by (simp add: hrefToString_def cong: Url.case_cong)
  have r: "repairHref ?env s = repairHref env s" for s
    by (simp add: repairHref_def)
  have u: "urlAsStringOf ?env href = urlAsStringOf env href"
    by (simp add: urlAsStringOf_def h r)
  from assms u have "\<not> isLocalURL ?env (urlAsStringOf ?env href)" by simp
  then have "resolveHref ?env router href resolveAs
               = (fst (repairHref env (hrefToString env href)),
                  Inr (unresolved (urlAsStringOf env href) resolveAs))"
    using not_local_result [of ?env href router resolveAs] by (simp add: h r u)
  with assms show ?thesis
    by (simp add: not_local_result unresolved_def)
qed

theorem resolveHref_not_local_witness:
  "\<not> isLocalURL http_env (urlAsStringOf http_env (UrlString ''https://example.com/x''))
   \<and> snd (resolveHref http_env \<lparr> pathname = ''/posts/[id]'', asPath = ''/posts/1'' \<rparr>
            (UrlString ''https://example.com/x'') False)
       = Inr (Str ''https://example.com/x'')
   \<and> snd (resolveHref http_env \<lparr> pathname = ''/posts/[id]'', asPath = ''/posts/1'' \<rparr>
            (UrlString ''https://example.com/x'') True)
       = Inr (Arr [''https://example.com/x''])"
proof -
  have n: "\<not> isLocalURL http_env (urlAsStringOf http_env (UrlString ''https://example.com/x''))"
    by code_simp
  have s: "urlAsStringOf http_env (UrlString ''https://example.com/x'') = ''https://example.com/x''"
    by code_simp
  show ?thesis
    using n resolveHref_not_local [OF n, of _ False] resolveHref_not_local [OF n, of _ True]
    by (simp add: s)
qed

subsection \<open>The resolution base\<close>

text \<open>
  C5. The base against which a local target is resolved is constructed from the
  router's \<open>asPath\<close> when the string begins with \<open>#\<close>, and from the router's \<open>pathname\<close>
  otherwise, each time against the placeholder \<open>http://n\<close>. The string is the target as
  it stands after the repair step: the target itself when it needs no repair, and a
  string that begins with \<open>#\<close> exactly when the target does, the repair being as the
  specification describes it. When that
  construction throws, the base is the root \<open>/\<close> of the placeholder, and no exception
  leaves \<open>resolveHref\<close>: the call returns a value, which for a local target is the
  resolution against this base. The hypothesis is that the platform constructs the root
  of the placeholder. In the concrete environment the \<open>asPath\<close> \<open>//\<close> makes the
  constructor throw; the empty \<open>asPath\<close> does not, and gives the root as base as well.
\<close>

theorem resolutionBase_choice:
  assumes "URL_new env ''/'' ''http://n'' = Some root"
  shows "resolutionBase env router s
           = Inr (case URL_new env (if startsWith s CHR ''#'' then asPath router else pathname router)
                         ''http://n'' of
                    Some base \<Rightarrow> base
                  | None \<Rightarrow> root)
         \<and> (\<not> needsRepair target \<longrightarrow> urlAsStringOf env (UrlString target) = target)
         \<and> (normalizeRepeatedSlashes env = spec_normalizeRepeatedSlashes \<longrightarrow>
              startsWith (urlAsStringOf env (UrlString target)) CHR ''#''
                = startsWith target CHR ''#'')
         \<and> (\<exists>r. snd (resolveHref env router href resolveAs) = Inr r)
         \<and> (isLocalURL env (urlAsStringOf env href) \<longrightarrow>
              snd (resolveHref env router href resolveAs)
                = Inr (resolveAgainst env (urlAsStringOf env href)
                         (case URL_new env (if startsWith (urlAsStringOf env href) CHR ''#''
                                            then asPath router else pathname router)
                                 ''http://n'' of
                            Some base \<Rightarrow> base
                          | None \<Rightarrow> root)
                         resolveAs))"
proof -
  have base: "resolutionBase env router t
                = Inr (case URL_new env (if startsWith t CHR ''#'' then asPath router else pathname router)
                              ''http://n'' of
                         Some base \<Rightarrow> base
                       | None \<Rightarrow> root)" for t
    using assms by (simp add: resolutionBase_def split: option.splits)
  have unrepaired: "\<not> needsRepair target \<longrightarrow> urlAsStringOf env (UrlString target) = target"
    using urlAsStringOf_unrepaired [of env "UrlString target"] by (simp add: hrefToString_def)
  have total: "\<exists>r. snd (resolveHref env router href resolveAs) = Inr r"
    using assms resolveHref_total [of env router href resolveAs] by simp
  show ?thesis
    using base unrepaired total resolveHref_local [OF _ base] startsWith_repaired [of env target]
    by blast
qed

theorem resolutionBase_choice_witness:
  "URL_new http_env ''/'' ''http://n''
     = Some \<lparr> url_host = ''n'', url_path = [''''], url_query = None, url_fragment = None \<rparr>
   \<and> map_sum id (URL_href http_env)
        (resolutionBase http_env \<lparr> pathname = ''/posts/[id]'', asPath = ''/a/b?x=1'' \<rparr> ''#section'')
       = Inr ''http://n/a/b?x=1''
   \<and> map_sum id (URL_href http_env)
        (resolutionBase http_env \<lparr> pathname = ''/posts/[id]'', asPath = ''/a/b?x=1'' \<rparr> ''/about'')
       = Inr ''http://n/posts/[id]''
   \<and> startsWith (urlAsStringOf http_env (UrlString ''#a//b'')) CHR ''#''
   \<and> URL_new http_env ''//'' ''http://n'' = None
   \<and> map_sum id (URL_href http_env)
        (resolutionBase http_env \<lparr> pathname = ''/posts/[id]'', asPath = ''//'' \<rparr> ''#section'')
       = Inr ''http://n/''
   \<and> map_sum id (URL_href http_env)
        (resolutionBase http_env \<lparr> pathname = ''/posts/[id]'', asPath = [] \<rparr> ''#section'')
       = Inr ''http://n/''
   \<and> snd (resolveHref http_env \<lparr> pathname = ''/posts/[id]'', asPath = ''//'' \<rparr>
            (UrlString ''#section'') False)
       = Inr (Str ''/#section'')
   \<and> snd (resolveHref http_env \<lparr> pathname = ''/posts/[id]'', asPath = ''/a/b?x=1'' \<rparr>
            (UrlString ''#section'') False)
       = Inr (Str ''/a/b?x=1#section'')"
proof -
  let ?root = "\<lparr> url_host = ''n'', url_path = [''''], url_query = None, url_fragment = None \<rparr>"
  let ?r1 = "\<lparr> pathname = ''/posts/[id]'', asPath = ''/a/b?x=1'' \<rparr>"
  let ?r2 = "\<lparr> pathname = ''/posts/[id]'', asPath = ''//'' \<rparr>"
  have root: "URL_new http_env ''/'' ''http://n'' = Some ?root" by code_simp
  have none: "URL_new http_env ''//'' ''http://n'' = None" by code_simp
  have a: "map_sum id (URL_href http_env)
             (Inr (case URL_new http_env (if startsWith ''#section'' CHR ''#'' then asPath ?r1 else pathname ?r1)
                          ''http://n'' of Some base \<Rightarrow> base | None \<Rightarrow> ?root))
           = (Inr ''http://n/a/b?x=1'' :: error + string)"
    by code_simp
  have b: "map_sum id (URL_href http_env)
             (Inr (case URL_new http_env (if startsWith ''/about'' CHR ''#'' then asPath ?r1 else pathname ?r1)
                          ''http://n'' of Some base \<Rightarrow> base | None \<Rightarrow> ?root))
           = (Inr ''http://n/posts/[id]'' :: error + string)"
    by code_simp
  have c: "map_sum id (URL_href http_env)
             (Inr (case URL_new http_env (if startsWith ''#section'' CHR ''#'' then asPath ?r2 else pathname ?r2)
                          ''http://n'' of Some base \<Rightarrow> base | None \<Rightarrow> ?root))
           = (Inr ''http://n/'' :: error + string)"
    by code_simp
  let ?r3 = "\<lparr> pathname = ''/posts/[id]'', asPath = [] \<rparr>"
  have c': "map_sum id (URL_href http_env)
             (Inr (case URL_new http_env (if startsWith ''#section'' CHR ''#'' then asPath ?r3 else pathname ?r3)
                          ''http://n'' of Some base \<Rightarrow> base | None \<Rightarrow> ?root))
           = (Inr ''http://n/'' :: error + string)"
    by code_simp
  have w3': "map_sum id (URL_href http_env) (resolutionBase http_env ?r3 ''#section'') = Inr ''http://n/''"
    using resolutionBase_choice [OF root, of ?r3 "''#section''"] c' by simp
  have l: "isLocalURL http_env (urlAsStringOf http_env (UrlString ''#section''))" by code_simp
  have d: "Inr (resolveAgainst http_env (urlAsStringOf http_env (UrlString ''#section''))
                  (case URL_new http_env (if startsWith (urlAsStringOf http_env (UrlString ''#section'')) CHR ''#''
                                          then asPath ?r2 else pathname ?r2) ''http://n'' of
                     Some base \<Rightarrow> base | None \<Rightarrow> ?root) False)
            = (Inr (Str ''/#section'') :: error + resolved)"
    by code_simp
  have e: "Inr (resolveAgainst http_env (urlAsStringOf http_env (UrlString ''#section''))
                  (case URL_new http_env (if startsWith (urlAsStringOf http_env (UrlString ''#section'')) CHR ''#''
                                          then asPath ?r1 else pathname ?r1) ''http://n'' of
                     Some base \<Rightarrow> base | None \<Rightarrow> ?root) False)
            = (Inr (Str ''/a/b?x=1#section'') :: error + resolved)"
    by code_simp
  note t1 = resolutionBase_choice [OF root, of ?r1 _ _ "UrlString ''#section''" False]
  note t2 = resolutionBase_choice [OF root, of ?r2 _ _ "UrlString ''#section''" False]
  have w1: "map_sum id (URL_href http_env) (resolutionBase http_env ?r1 ''#section'') = Inr ''http://n/a/b?x=1''"
    using t1 [of "''#section''"] a by simp
  have w2: "map_sum id (URL_href http_env) (resolutionBase http_env ?r1 ''/about'') = Inr ''http://n/posts/[id]''"
    using t1 [of "''/about''"] b by simp
  have w3: "map_sum id (URL_href http_env) (resolutionBase http_env ?r2 ''#section'') = Inr ''http://n/''"
    using t2 [of "''#section''"] c by simp
  have w4: "snd (resolveHref http_env ?r2 (UrlString ''#section'') False) = Inr (Str ''/#section'')"
    using t2 l d by simp
  have w5: "snd (resolveHref http_env ?r1 (UrlString ''#section'') False) = Inr (Str ''/a/b?x=1#section'')"
    using t1 l e by simp
  have k: "normalizeRepeatedSlashes http_env = spec_normalizeRepeatedSlashes"
    by (simp add: http_env_def)
  have m: "startsWith ''#a//b'' CHR ''#''" by code_simp
  have w6: "startsWith (urlAsStringOf http_env (UrlString ''#a//b'')) CHR ''#''"
    using resolutionBase_choice [OF root, of ?r1 _ "''#a//b''"] k m by simp
  show ?thesis using root none w1 w2 w3 w3' w4 w5 w6 by simp
qed

subsection \<open>No exception leaves the function\<close>

text \<open>
  C1, amended. For every target (a string or a structured object) and every router
  state, \<open>resolveHref\<close> returns a value and never throws, provided the platform constructs
  the root of the placeholder: there is always a base, and when the construction of the
  resolved URL fails, the value is the string form of the target as it stands after the
  repair of repeated separators, bare when \<open>resolveAs\<close> is false, in a one-element array
  when it is true. That string is the original one when no repair was needed.
\<close>

theorem resolveHref_failure_degrades:
  assumes "URL_new env ''/'' ''http://n'' \<noteq> None"
  shows "(\<exists>r. snd (resolveHref env router href resolveAs) = Inr r)
         \<and> (\<exists>base. resolutionBase env router (urlAsStringOf env href) = Inr base)
         \<and> (\<forall>base. isLocalURL env (urlAsStringOf env href)
                    \<and> resolutionBase env router (urlAsStringOf env href) = Inr base
                    \<and> finalUrlFor env (urlAsStringOf env href) base = None
                  \<longrightarrow> snd (resolveHref env router href resolveAs)
                        = Inr (if resolveAs then Arr [urlAsStringOf env href]
                               else Str (urlAsStringOf env href)))
         \<and> (\<not> needsRepair (hrefToString env href)
               \<longrightarrow> urlAsStringOf env href = hrefToString env href)"
  using assms resolveHref_total [of env router href resolveAs]
    resolutionBase_total [of env router "urlAsStringOf env href"]
    urlAsStringOf_unrepaired [of env href]
  by (auto simp: resolveHref_local resolveAgainst_failed unresolved_def)

theorem resolveHref_failure_degrades_witness:
  "URL_new http_env ''/'' ''http://n'' \<noteq> None
   \<and> finalUrlFor http_env ''/\<newline>/''
        \<lparr> url_host = ''n'', url_path = [''posts'', ''[id]''], url_query = None, url_fragment = None \<rparr>
       = None
   \<and> snd (resolveHref http_env \<lparr> pathname = ''/posts/[id]'', asPath = ''/posts/1'' \<rparr>
            (UrlString ''/\<newline>/'') False)
       = Inr (Str ''/\<newline>/'')
   \<and> snd (resolveHref http_env \<lparr> pathname = ''/posts/[id]'', asPath = ''/posts/1'' \<rparr>
            (UrlString ''/\<newline>/'') True)
       = Inr (Arr [''/\<newline>/''])"
proof -
  let ?r = "\<lparr> pathname = ''/posts/[id]'', asPath = ''/posts/1'' \<rparr>"
  let ?b = "\<lparr> url_host = ''n'', url_path = [''posts'', ''[id]''], url_query = None,
             url_fragment = None \<rparr>"
  let ?h = "UrlString ''/\<newline>/'' :: urlQuery Url"
  have root: "URL_new http_env ''/'' ''http://n'' \<noteq> None" by code_simp
  have n: "\<not> needsRepair (hrefToString http_env ?h)" by code_simp
  have h: "hrefToString http_env ?h = ''/\<newline>/''" by code_simp
  have l: "isLocalURL http_env ''/\<newline>/''" by code_simp
  have b: "resolutionBase http_env ?r ''/\<newline>/'' = Inr ?b" by code_simp
  have f: "finalUrlFor http_env ''/\<newline>/'' ?b = None" by code_simp
  note t = resolveHref_failure_degrades [OF root, of ?r ?h]
  from t [of False] n h have s: "urlAsStringOf http_env ?h = ''/\<newline>/''" by simp
  show ?thesis
    using root f t [of False] t [of True] l b by (simp add: s)
qed

text \<open>
  The claim as stated fails where the target needed repair: for the target made of a
  slash, a line feed, a slash and a backslash, the repaired string is slash, line feed,
  slash; it is local, its construction fails (without the line feed it is \<open>//\<close>, an
  empty host), and the value returned is the repaired string, not the original one.
\<close>

theorem resolveHref_failure_original_counterexample:
  "urlAsStringOf http_env (UrlString (''/\<newline>/'' @ [backslash])) = ''/\<newline>/''
   \<and> isLocalURL http_env ''/\<newline>/''
   \<and> resolutionBase http_env \<lparr> pathname = ''/posts/[id]'', asPath = ''/posts/1'' \<rparr> ''/\<newline>/''
       = Inr \<lparr> url_host = ''n'', url_path = [''posts'', ''[id]''], url_query = None,
               url_fragment = None \<rparr>
   \<and> finalUrlFor http_env ''/\<newline>/''
        \<lparr> url_host = ''n'', url_path = [''posts'', ''[id]''], url_query = None, url_fragment = None \<rparr>
       = None
   \<and> snd (resolveHref http_env \<lparr> pathname = ''/posts/[id]'', asPath = ''/posts/1'' \<rparr>
            (UrlString (''/\<newline>/'' @ [backslash])) False)
       = Inr (Str ''/\<newline>/'')
   \<and> ''/\<newline>/'' \<noteq> ''/\<newline>/'' @ [backslash]"
  by code_simp

subsection \<open>Interpolation of a dynamic route\<close>

text \<open>
  C2. When \<open>resolveAs\<close> is true and the interpolation of the resolved path succeeds, the
  result is a pair. Its first element is the resolved href with its path and query as
  they are, the same string that the call with \<open>resolveAs\<close> false returns. Its second
  element is the interpolated path, followed by the query parameters whose names are not
  among the consumed ones, all of them and in their order, and by the hash. The query and
  the hash are written by \<open>omit\<close> and \<open>formatWithValidation\<close>, which the theorem takes as
  the specification describes them. For the target \<open>/posts/[id]?id=5&sort=asc\<close> under the
  route \<open>/posts/[id]\<close> the pair is \<open>/posts/[id]?id=5&sort=asc\<close> and \<open>/posts/5?sort=asc\<close>.
\<close>

theorem resolveHref_interpolated_pair:
  assumes "isLocalURL env (urlAsStringOf env href)"
    and "resolutionBase env router (urlAsStringOf env href) = Inr base"
    and "finalUrlFor env (urlAsStringOf env href) base = Some finalUrl"
    and "isDynamicRoute env (URL_pathname env finalUrl)"
    and "query = searchParamsToUrlQuery env (URL_searchParams env finalUrl)"
    and "r = interpolateAs env (URL_pathname env finalUrl) (URL_pathname env finalUrl) query"
    and "result r = Some path" and "path \<noteq> []"
    and "omit env = spec_omit"
    and "formatWithValidation env = spec_formatWithValidation"
  shows "snd (resolveHref env router href True)
           = Inr (Arr [resolvedHref env finalUrl base,
                       path @ formatQuery (filter (\<lambda>(k, v). k \<notin> set (params r)) query)
                       @ formatHash (URL_hash env finalUrl)])
         \<and> snd (resolveHref env router href False) = Inr (Str (resolvedHref env finalUrl base))"
proof -
  have "interpolatedAs env finalUrl True
          = path @ formatQuery (filter (\<lambda>(k, v). k \<notin> set (params r)) query)
            @ formatHash (URL_hash env finalUrl)"
    using assms(4-10) interpolatedAs_match [of env finalUrl path]
    by (simp add: spec_formatWithValidation_def spec_omit_def)
  then show ?thesis
    using assms(1-3,8) by (simp add: resolveHref_local resolveAgainst_final)
qed

theorem resolveHref_interpolated_pair_witness:
  "snd (resolveHref http_env \<lparr> pathname = ''/posts/[id]'', asPath = ''/posts/1'' \<rparr>
          (UrlString ''/posts/[id]?id=5&sort=asc'') True)
     = Inr (Arr [''/posts/[id]?id=5&sort=asc'', ''/posts/5?sort=asc''])
   \<and> snd (resolveHref http_env \<lparr> pathname = ''/posts/[id]'', asPath = ''/posts/1'' \<rparr>
            (UrlString ''/posts/[id]?id=5&sort=asc'') False)
       = Inr (Str ''/posts/[id]?id=5&sort=asc'')"
proof -
  let ?r = "\<lparr> pathname = ''/posts/[id]'', asPath = ''/posts/1'' \<rparr>"
  let ?h = "UrlString ''/posts/[id]?id=5&sort=asc'' :: urlQuery Url"
  let ?b = "\<lparr> url_host = ''n'', url_path = [''posts'', ''[id]''], url_query = None,
             url_fragment = None \<rparr>"
  let ?u = "\<lparr> url_host = ''n'', url_path = [''posts'', ''[id]''], url_query = Some ''id=5&sort=asc'',
             url_fragment = None \<rparr>"
  let ?q = "[(''id'', ''5''), (''sort'', ''asc'')]"
  let ?i = "\<lparr> result = Some ''/posts/5'', params = [''id''] \<rparr>"
  have l: "isLocalURL http_env (urlAsStringOf http_env ?h)" by code_simp
  have b: "resolutionBase http_env ?r (urlAsStringOf http_env ?h) = Inr ?b" by code_simp
  have f: "finalUrlFor http_env (urlAsStringOf http_env ?h) ?b = Some ?u" by code_simp
  have d: "isDynamicRoute http_env (URL_pathname http_env ?u)" by code_simp
  have q: "?q = searchParamsToUrlQuery http_env (URL_searchParams http_env ?u)" by code_simp
  have i: "?i = interpolateAs http_env (URL_pathname http_env ?u) (URL_pathname http_env ?u) ?q"
    by code_simp
  have o: "omit http_env = spec_omit" by (simp add: http_env_def)
  have w: "formatWithValidation http_env = spec_formatWithValidation" by (simp add: http_env_def)
  have a: "''/posts/5'' @ formatQuery (filter (\<lambda>(k, v). k \<notin> set (params ?i)) ?q)
             @ formatHash (URL_hash http_env ?u) = ''/posts/5?sort=asc''"
    by code_simp
  have h: "resolvedHref http_env ?u ?b = ''/posts/[id]?id=5&sort=asc''" by code_simp
  show ?thesis
    using resolveHref_interpolated_pair [OF l b f d q i _ _ o w, of "''/posts/5''"]
    by (simp only: a h) simp
qed

text \<open>
  C10. Whenever the interpolation succeeds (a dynamic route for which \<open>interpolateAs\<close>
  returns a result), the \<open>as\<close> string is the serialization of the interpolated pathname
  together with the hash of the resolved URL and the query parameters that were not
  consumed.
\<close>

theorem interpolatedAs_keeps_hash:
  assumes "isDynamicRoute env (URL_pathname env finalUrl)"
    and "interpolateAs env (URL_pathname env finalUrl) (URL_pathname env finalUrl)
           (searchParamsToUrlQuery env (URL_searchParams env finalUrl)) = r"
    and "result r = Some path" and "path \<noteq> []"
  shows "interpolatedAs env finalUrl True
           = formatWithValidation env
               \<lparr> obj_pathname = path,
                 obj_hash = URL_hash env finalUrl,
                 obj_query = omit env (searchParamsToUrlQuery env (URL_searchParams env finalUrl))
                               (params r) \<rparr>"
  using assms interpolatedAs_match [of env finalUrl path] by auto

theorem interpolatedAs_keeps_hash_witness:
  "URL_hash http_env
     \<lparr> url_host = ''n'', url_path = [''posts'', ''[id]''], url_query = Some ''id=5&sort=asc'',
       url_fragment = Some ''top'' \<rparr> = ''#top''
   \<and> interpolatedAs http_env
        \<lparr> url_host = ''n'', url_path = [''posts'', ''[id]''], url_query = Some ''id=5&sort=asc'',
          url_fragment = Some ''top'' \<rparr> True
       = ''/posts/5?sort=asc#top''
   \<and> snd (resolveHref http_env \<lparr> pathname = ''/posts/[id]'', asPath = ''/posts/1'' \<rparr>
            (UrlString ''/posts/[id]?id=5&sort=asc#top'') True)
       = Inr (Arr [''/posts/[id]?id=5&sort=asc#top'', ''/posts/5?sort=asc#top''])"
proof -
  let ?u = "\<lparr> url_host = ''n'', url_path = [''posts'', ''[id]''], url_query = Some ''id=5&sort=asc'',
             url_fragment = Some ''top'' \<rparr>"
  let ?q = "searchParamsToUrlQuery http_env (URL_searchParams http_env ?u)"
  have d: "isDynamicRoute http_env (URL_pathname http_env ?u)" by code_simp
  have i: "interpolateAs http_env (URL_pathname http_env ?u) (URL_pathname http_env ?u) ?q
             = \<lparr> result = Some ''/posts/5'', params = [''id''] \<rparr>"
    by code_simp
  have a: "formatWithValidation http_env
             \<lparr> obj_pathname = ''/posts/5'', obj_hash = URL_hash http_env ?u,
               obj_query = omit http_env ?q (params \<lparr> result = Some ''/posts/5'', params = [''id''] \<rparr>) \<rparr>
           = ''/posts/5?sort=asc#top''"
    by code_simp
  have h: "URL_hash http_env ?u = ''#top''" by code_simp
  have w: "snd (resolveHref http_env \<lparr> pathname = ''/posts/[id]'', asPath = ''/posts/1'' \<rparr>
                  (UrlString ''/posts/[id]?id=5&sort=asc#top'') True)
             = Inr (Arr [''/posts/[id]?id=5&sort=asc#top'', ''/posts/5?sort=asc#top''])"
    by code_simp
  show ?thesis
    using interpolatedAs_keeps_hash [OF d i] a h w by simp
qed





subsection \<open>The repair of repeated separators\<close>



subsection \<open>When a route is interpolated\<close>

text \<open>
  C3, amended. Interpolation is performed if and only if \<open>resolveAs\<close> is true and the
  normalized resolved path is a dynamic route, whether or not the resolved URL has query
  parameters: the \<open>searchParams\<close> object that the condition reads is there in both cases.
  Under the two conditions \<open>interpolateAs\<close> is called on the path and on the mapping of
  the parameters, and a result that is not empty makes the \<open>as\<close> value; when one of the
  two conditions fails there is no interpolation, and the \<open>as\<close> value is the canonical
  resolved href.
\<close>

theorem interpolation_performed_iff:
  "interpolationAttempted env finalUrl resolveAs
     = (resolveAs \<and> isDynamicRoute env (URL_pathname env finalUrl))
   \<and> (resolveAs \<and> isDynamicRoute env (URL_pathname env finalUrl) \<longrightarrow>
        interpolatedAs env finalUrl resolveAs
          = (case result (interpolateAs env (URL_pathname env finalUrl) (URL_pathname env finalUrl)
                            (searchParamsToUrlQuery env (URL_searchParams env finalUrl))) of
               Some path \<Rightarrow>
                 if path \<noteq> []
                 then formatWithValidation env
                        \<lparr> obj_pathname = path,
                          obj_hash = URL_hash env finalUrl,
                          obj_query =
                            omit env (searchParamsToUrlQuery env (URL_searchParams env finalUrl))
                              (params (interpolateAs env (URL_pathname env finalUrl)
                                         (URL_pathname env finalUrl)
                                         (searchParamsToUrlQuery env
                                            (URL_searchParams env finalUrl)))) \<rparr>
                 else []
             | None \<Rightarrow> []))
   \<and> (\<not> (resolveAs \<and> isDynamicRoute env (URL_pathname env finalUrl)) \<longrightarrow>
        interpolatedAs env finalUrl resolveAs = [])
   \<and> (isLocalURL env (urlAsStringOf env href)
        \<and> resolutionBase env router (urlAsStringOf env href) = Inr base
        \<and> finalUrlFor env (urlAsStringOf env href) base = Some finalUrl
        \<longrightarrow> snd (resolveHref env router href True)
              = Inr (Arr [resolvedHref env finalUrl base,
                          if interpolatedAs env finalUrl True \<noteq> []
                          then interpolatedAs env finalUrl True
                          else resolvedHref env finalUrl base]))"
  by (auto simp: interpolationAttempted_eq interpolatedAs_def Let_def resolveHref_local
                 resolveAgainst_final)

theorem interpolation_performed_iff_witness:
  "URL_searchParams catchall_env
     \<lparr> url_host = ''n'', url_path = [''docs'', ''[[...slug]]''], url_query = None,
       url_fragment = None \<rparr> = []
   \<and> interpolatedAs catchall_env
        \<lparr> url_host = ''n'', url_path = [''docs'', ''[[...slug]]''], url_query = None,
          url_fragment = None \<rparr> True = ''/docs''
   \<and> snd (resolveHref catchall_env \<lparr> pathname = ''/docs/[[...slug]]'', asPath = ''/docs'' \<rparr>
            (UrlString ''/docs/[[...slug]]'') True)
       = Inr (Arr [''/docs/[[...slug]]'', ''/docs''])
   \<and> interpolatedAs catchall_env
        \<lparr> url_host = ''n'', url_path = [''about''], url_query = Some ''tab=team'',
          url_fragment = None \<rparr> True = []
   \<and> snd (resolveHref catchall_env \<lparr> pathname = ''/docs/[[...slug]]'', asPath = ''/docs'' \<rparr>
            (UrlString ''/about?tab=team'') True)
       = Inr (Arr [''/about?tab=team'', ''/about?tab=team''])"
proof -
  let ?r = "\<lparr> pathname = ''/docs/[[...slug]]'', asPath = ''/docs'' \<rparr>"
  let ?b = "\<lparr> url_host = ''n'', url_path = [''docs'', ''[[...slug]]''], url_query = None,
             url_fragment = None \<rparr>"
  let ?u = "\<lparr> url_host = ''n'', url_path = [''docs'', ''[[...slug]]''], url_query = None,
             url_fragment = None \<rparr>"
  let ?v = "\<lparr> url_host = ''n'', url_path = [''about''], url_query = Some ''tab=team'',
             url_fragment = None \<rparr>"
  let ?h = "UrlString ''/docs/[[...slug]]'' :: urlQuery Url"
  let ?k = "UrlString ''/about?tab=team'' :: urlQuery Url"
  have q: "URL_searchParams catchall_env ?u = []" by code_simp
  have d: "isDynamicRoute catchall_env (URL_pathname catchall_env ?u)" by code_simp
  have e: "\<not> isDynamicRoute catchall_env (URL_pathname catchall_env ?v)" by code_simp
  have c: "(case result (interpolateAs catchall_env (URL_pathname catchall_env ?u)
                           (URL_pathname catchall_env ?u)
                           (searchParamsToUrlQuery catchall_env (URL_searchParams catchall_env ?u))) of
              Some path \<Rightarrow>
                if path \<noteq> []
                then formatWithValidation catchall_env
                       \<lparr> obj_pathname = path,
                         obj_hash = URL_hash catchall_env ?u,
                         obj_query =
                           omit catchall_env
                             (searchParamsToUrlQuery catchall_env (URL_searchParams catchall_env ?u))
                             (params (interpolateAs catchall_env (URL_pathname catchall_env ?u)
                                        (URL_pathname catchall_env ?u)
                                        (searchParamsToUrlQuery catchall_env
                                           (URL_searchParams catchall_env ?u)))) \<rparr>
                else []
            | None \<Rightarrow> []) = ''/docs''"
    by code_simp
  have l1: "isLocalURL catchall_env (urlAsStringOf catchall_env ?h)" by code_simp
  have b1: "resolutionBase catchall_env ?r (urlAsStringOf catchall_env ?h) = Inr ?b" by code_simp
  have f1: "finalUrlFor catchall_env (urlAsStringOf catchall_env ?h) ?b = Some ?u" by code_simp
  have h1: "resolvedHref catchall_env ?u ?b = ''/docs/[[...slug]]''" by code_simp
  have l2: "isLocalURL catchall_env (urlAsStringOf catchall_env ?k)" by code_simp
  have b2: "resolutionBase catchall_env ?r (urlAsStringOf catchall_env ?k) = Inr ?b" by code_simp
  have f2: "finalUrlFor catchall_env (urlAsStringOf catchall_env ?k) ?b = Some ?v" by code_simp
  have h2: "resolvedHref catchall_env ?v ?b = ''/about?tab=team''" by code_simp
  note t1 = interpolation_performed_iff [of catchall_env ?u True ?h ?r ?b]
  note t2 = interpolation_performed_iff [of catchall_env ?v True ?k ?r ?b]
  have i1: "interpolatedAs catchall_env ?u True = ''/docs''"
    using t1 d c by simp
  have i2: "interpolatedAs catchall_env ?v True = []"
    using t2 e by simp
  have w1: "snd (resolveHref catchall_env ?r ?h True) = Inr (Arr [''/docs/[[...slug]]'', ''/docs''])"
    using t1 [THEN conjunct2, THEN conjunct2, THEN conjunct2] l1 b1 f1 by (simp add: i1 h1)
  have w2: "snd (resolveHref catchall_env ?r ?k True) = Inr (Arr [''/about?tab=team'', ''/about?tab=team''])"
    using t2 [THEN conjunct2, THEN conjunct2, THEN conjunct2] l2 b2 f2 by (simp add: i2 h2)
  show ?thesis using q i1 i2 w1 w2 by simp
qed

text \<open>
  The claim as stated fails on a dynamic route without query parameters. For the target
  \<open>/docs/[[...slug]]\<close>, whose last segment is an optional catch-all, the resolved URL has
  no query parameter; the interpolation is performed all the same, and the \<open>as\<close> value is
  \<open>/docs\<close>, not the canonical resolved href.
\<close>

theorem interpolation_without_query_counterexample:
  "finalUrlFor catchall_env (urlAsStringOf catchall_env (UrlString ''/docs/[[...slug]]''))
     \<lparr> url_host = ''n'', url_path = [''docs'', ''[[...slug]]''], url_query = None,
       url_fragment = None \<rparr>
     = Some \<lparr> url_host = ''n'', url_path = [''docs'', ''[[...slug]]''], url_query = None,
              url_fragment = None \<rparr>
   \<and> URL_searchParams catchall_env
        \<lparr> url_host = ''n'', url_path = [''docs'', ''[[...slug]]''], url_query = None,
          url_fragment = None \<rparr>
       = []
   \<and> resolveHref catchall_env \<lparr> pathname = ''/docs/[[...slug]]'', asPath = ''/docs'' \<rparr>
        (UrlString ''/docs/[[...slug]]'') True
       = ([], Inr (Arr [''/docs/[[...slug]]'', ''/docs'']))
   \<and> ''/docs'' \<noteq> ''/docs/[[...slug]]''"
  by code_simp













subsection \<open>The second element of the pair\<close>



subsection \<open>Resolving a resolved href again\<close>

text \<open>
  C9. The claim is that \<open>resolveHref\<close> with \<open>resolveAs\<close> false, applied to a string that
  it returned for a local target, returns that string again. The code does not do so.
  The scan for repeated slashes runs on the raw string, and the URL parser then drops
  tabs and newlines: for the local target \<open>/a/\<close>, line feed, \<open>/b\<close>, which the scan
  passes, the call prints nothing and returns \<open>/a//b\<close>, a string with the repeated slash
  that the comment at lines 35 and 36 calls invalid. Applied to \<open>/a//b\<close>, the function
  prints its message and returns \<open>/a/b\<close>.
\<close>

theorem resolveHref_not_idempotent:
  "isLocalURL http_env ''/a/\<newline>/b''
   \<and> \<not> needsRepair ''/a/\<newline>/b''
   \<and> resolveHref http_env \<lparr> pathname = ''/posts/[id]'', asPath = ''/posts/1'' \<rparr>
        (UrlString ''/a/\<newline>/b'') False
       = ([], Inr (Str ''/a//b''))
   \<and> needsRepair ''/a//b''
   \<and> resolveHref http_env \<lparr> pathname = ''/posts/[id]'', asPath = ''/posts/1'' \<rparr>
        (UrlString ''/a//b'') False
       = ([invalidHrefMessage ''/a//b''], Inr (Str ''/a/b''))
   \<and> ''/a/b'' \<noteq> ''/a//b''"
  by code_simp

end
